theory Spec2Isabelle
  imports Main "HOL-Library.AList"
begin

section \<open>JavaScript values\<close>

text \<open>
  The library moves JavaScript values between two processes. A value is a primitive, a
  function (known by its identity only) or an object. Of an object the code looks at three
  things: the name of its constructor (\<open>obj.constructor.name\<close>), which of the two
  prototypes it tests with \<open>instanceof\<close> (\<open>Error\<close> and
  \<open>Restorer.__ThrownNonObject\<close>) lies on its prototype chain, and its own properties.
  An own property is a key, an enumerable flag and a value; the properties are kept in
  creation order, and the first entry for a key is the one that counts.

  Numbers are the integers. Accessor properties, frozen objects, symbols, own properties
  of functions and an own property named \<open>constructor\<close> are not modelled.
\<close>

datatype proto_kind = PlainProto | ErrorProto | ThrownNonObjectProto

datatype jsval =
    JUndefined
  | JNull
  | JBool bool
  | JNum int
  | JStr string
  | JFunc nat
  | JObj string proto_kind "(string \<times> bool \<times> jsval) list"

type_synonym props = "(string \<times> bool \<times> jsval) list"

text \<open>An exception: a TypeError of the engine, or a value that user code has thrown.\<close>

datatype js_error = TypeError | Raised jsval

fun typeof :: "jsval \<Rightarrow> string" where
  "typeof JUndefined = ''undefined''"
| "typeof JNull = ''object''"
| "typeof (JBool b) = ''boolean''"
| "typeof (JNum n) = ''number''"
| "typeof (JStr s) = ''string''"
| "typeof (JFunc f) = ''function''"
| "typeof (JObj c p ps) = ''object''"

fun truthy :: "jsval \<Rightarrow> bool" where
  "truthy JUndefined = False"
| "truthy JNull = False"
| "truthy (JBool b) = b"
| "truthy (JNum n) = (n \<noteq> 0)"
| "truthy (JStr s) = (s \<noteq> [])"
| "truthy (JFunc f) = True"
| "truthy (JObj c p ps) = True"

text \<open>\<open>v.constructor.name\<close> for a value that is an object or a function.\<close>

fun constructor_name :: "jsval \<Rightarrow> string" where
  "constructor_name (JObj c p ps) = c"
| "constructor_name (JFunc f) = ''Function''"
| "constructor_name (JBool b) = ''Boolean''"
| "constructor_name (JNum n) = ''Number''"
| "constructor_name (JStr s) = ''String''"
| "constructor_name v = []"

fun instanceof_Error :: "jsval \<Rightarrow> bool" where
  "instanceof_Error (JObj c p ps) = (p = ErrorProto)"
| "instanceof_Error v = False"

fun instanceof_ThrownNonObject :: "jsval \<Rightarrow> bool" where
  "instanceof_ThrownNonObject (JObj c p ps) = (p = ThrownNonObjectProto)"
| "instanceof_ThrownNonObject v = False"

subsection \<open>Decimal numerals and string conversion\<close>

definition digit_char :: "nat \<Rightarrow> char" where
  "digit_char d = ''0123456789'' ! d"

fun show_nat :: "nat \<Rightarrow> string" where
  "show_nat n = (if n < 10 then [digit_char n] else show_nat (n div 10) @ [digit_char (n mod 10)])"

declare show_nat.simps [simp del]

definition show_int :: "int \<Rightarrow> string" where
  "show_int i = (if i < 0 then CHR ''-'' # show_nat (nat (- i)) else show_nat (nat i))"

text \<open>
  The string conversion of template literals and of \<open>new Error(message)\<close>. An object is
  rendered as \<open>Object.prototype.toString\<close> renders a plain object; an object with a
  \<open>toString\<close> of its own is outside the model, and so is the source text of a function.
\<close>

fun to_string :: "jsval \<Rightarrow> string" where
  "to_string JUndefined = ''undefined''"
| "to_string JNull = ''null''"
| "to_string (JBool b) = (if b then ''true'' else ''false'')"
| "to_string (JNum n) = show_int n"
| "to_string (JStr s) = s"
| "to_string (JFunc f) = ''function () { [native code] }''"
| "to_string (JObj c p ps) = ''[object Object]''"

subsection \<open>Properties\<close>

text \<open>
  Reading \<open>v.k\<close> where \<open>v\<close> is neither \<open>undefined\<close> nor \<open>null\<close>: an own property, or
  else what the prototype gives. The code reads the keys \<open>message\<close>, \<open>thrownValue\<close> and
  \<open>_affinity_rethrow\<close>; of these only \<open>message\<close> is on a built-in prototype
  (\<open>Error.prototype.message\<close> is the empty string).
\<close>

definition value_of :: "props \<Rightarrow> string \<Rightarrow> jsval option" where
  "value_of ps k = map_option snd (map_of ps k)"

fun own_property :: "jsval \<Rightarrow> string \<Rightarrow> jsval option" where
  "own_property (JObj c p ps) k = value_of ps k"
| "own_property v k = None"

fun prop_value :: "jsval \<Rightarrow> string \<Rightarrow> jsval" where
  "prop_value (JObj c p ps) k =
     (case value_of ps k of
        Some v \<Rightarrow> v
      | None \<Rightarrow> if p = ErrorProto \<and> k = ''message'' then JStr [] else JUndefined)"
| "prop_value v k = JUndefined"

text \<open>Reading a property of \<open>undefined\<close> or \<open>null\<close> raises a TypeError.\<close>

fun get_prop :: "jsval \<Rightarrow> string \<Rightarrow> js_error + jsval" where
  "get_prop JUndefined k = Inl TypeError"
| "get_prop JNull k = Inl TypeError"
| "get_prop v k = Inr (prop_value v k)"

text \<open>\<open>delete v.k\<close>: removes an own property of an object, does nothing on a primitive.\<close>

fun delete_prop :: "jsval \<Rightarrow> string \<Rightarrow> js_error + jsval" where
  "delete_prop JUndefined k = Inl TypeError"
| "delete_prop JNull k = Inl TypeError"
| "delete_prop (JObj c p ps) k = Inr (JObj c p (AList.delete k ps))"
| "delete_prop v k = Inr v"

text \<open>
  \<open>obj.k = v\<close> on an object: an existing own property keeps its place and its flag, a
  new one is enumerable and goes last.
\<close>

definition set_own :: "props \<Rightarrow> string \<Rightarrow> jsval \<Rightarrow> props" where
  "set_own ps k v =
     AList.update k ((case map_of ps k of Some (e, old) \<Rightarrow> e | None \<Rightarrow> True), v) ps"

text \<open>
  The own enumerable properties \<open>Object.assign\<close> copies from a source: those of an
  object, the characters of a string under their indices, none of another primitive.
\<close>

definition enum_view :: "props \<Rightarrow> (string \<times> jsval) list" where
  "enum_view xs = map (\<lambda>(k, e, v). (k, v)) (filter (\<lambda>(k, e, v). e) xs)"

fun enumerable_own :: "jsval \<Rightarrow> (string \<times> jsval) list" where
  "enumerable_own (JObj c p ps) = enum_view (AList.clearjunk ps)"
| "enumerable_own (JStr s) = zip (map show_nat [0..<length s]) (map (\<lambda>ch. JStr [ch]) s)"
| "enumerable_own v = []"

definition assign_from :: "props \<Rightarrow> jsval \<Rightarrow> props" where
  "assign_from tgt src = foldl (\<lambda>ps (k, v). set_own ps k v) tgt (enumerable_own src)"

definition object_assign :: "props \<Rightarrow> jsval list \<Rightarrow> props" where
  "object_assign tgt srcs = foldl assign_from tgt srcs"

text \<open>
  \<open>new Error(message)\<close>: an own, non-enumerable \<open>message\<close> unless the argument is
  \<open>undefined\<close>, and the own, non-enumerable \<open>stack\<close> the engine records where the error
  is constructed (\<open>engine_stack\<close> stands for that trace).
\<close>

definition engine_stack :: "string \<Rightarrow> string" where
  "engine_stack msg = ''Error: '' @ msg @ [CHR 0x0A] @ ''    at <receiving side>''"

definition new_Error :: "jsval \<Rightarrow> props" where
  "new_Error message =
     (''stack'', False, JStr (engine_stack (if message = JUndefined then [] else to_string message)))
     # (if message = JUndefined then [] else [(''message'', False, JStr (to_string message))])"

section \<open>Restorer (restorer\_lib.ts)\<close>

record RestorationInfo =
  argIndex :: "nat option"
  className :: string
  isError :: bool
  isCallback :: bool

type_synonym RestorerFunction = "string \<Rightarrow> jsval \<Rightarrow> js_error + jsval"



definition makeRestorationInfo :: "jsval \<Rightarrow> RestorationInfo option" where
  "makeRestorationInfo obj =
     (if obj = JNull then None
      else if typeof obj \<noteq> ''object'' \<and> typeof obj \<noteq> ''function'' then None
      else Some \<lparr> argIndex = None,
                  className = constructor_name obj,
                  isError = instanceof_Error obj,
                  isCallback = (typeof obj = ''function'') \<rparr>)"

text \<open>The class \<open>Restorer.__ThrownNonObject\<close>: the field initialiser, then the constructor body.\<close>

definition new_ThrownNonObject :: "jsval \<Rightarrow> jsval" where
  "new_ThrownNonObject thrownValue =
     JObj ''__ThrownNonObject'' ThrownNonObjectProto
       [(''_affinity_rethrow'', True, JBool True), (''thrownValue'', True, thrownValue)]"

definition makeRethrownReturnValue :: "jsval \<Rightarrow> jsval \<times> RestorationInfo option" where
  "makeRethrownReturnValue thrown =
     (if typeof thrown \<noteq> ''object'' then
        (let thrown' = new_ThrownNonObject thrown in (thrown', makeRestorationInfo thrown'))
      else
        (let info = makeRestorationInfo thrown;
             returnedError =
               object_assign [(''_affinity_rethrow'', True, JBool True)]
                 [JObj ''Object'' PlainProto
                    (if instanceof_Error thrown
                     then [(''message'', True, prop_value thrown ''message'')] else []),
                  thrown]
         in (JObj ''Object'' PlainProto (AList.delete ''stack'' returnedError), info)))"

text \<open>\<open>value != undefined && value._affinity_rethrow\<close>: the result is the operand that decides.\<close>

definition wasThrownValue :: "jsval \<Rightarrow> jsval" where
  "wasThrownValue v =
     (if v \<noteq> JUndefined \<and> v \<noteq> JNull then prop_value v ''_affinity_rethrow'' else JBool False)"

definition restoreValue ::
  "jsval \<Rightarrow> RestorationInfo option \<Rightarrow> RestorerFunction option \<Rightarrow> js_error + jsval" where
  "restoreValue obj info restorer =
     (case info of
        None \<Rightarrow> Inr obj
      | Some i \<Rightarrow>
          if className i = ''__ThrownNonObject'' then
            (case get_prop obj ''thrownValue'' of
               Inl e \<Rightarrow> Inl e
             | Inr tv \<Rightarrow> Inr (new_ThrownNonObject tv))
          else
            (case restorer of
               None \<Rightarrow> Inr obj
             | Some r \<Rightarrow> r (className i) obj))"

definition synthetic_stack :: "jsval \<Rightarrow> string" where
  "synthetic_stack v =
     constructor_name v @ '': '' @ to_string (prop_value v ''message'')
       @ [CHR 0x0A, CHR 0x09] @ ''in main process''"

text \<open>
  \<open>if (!(value instanceof Error) && info.isError)\<close>: a generic Error is built from the
  message, and the remaining enumerable properties are copied onto it. Reading
  \<open>info.isError\<close> of a missing info raises a TypeError.
\<close>

definition rebuild_error :: "jsval \<Rightarrow> RestorationInfo option \<Rightarrow> js_error + jsval" where
  "rebuild_error v info =
     (if instanceof_Error v then Inr v
      else
        (case info of
           None \<Rightarrow> Inl TypeError
         | Some i \<Rightarrow>
             if isError i then
               (case get_prop v ''message'' of
                  Inl e \<Rightarrow> Inl e
                | Inr message \<Rightarrow>
               (case delete_prop v ''message'' of
                  Inl e \<Rightarrow> Inl e
                | Inr v' \<Rightarrow>
                    Inr (JObj ''Error'' ErrorProto (object_assign (new_Error message) [v']))))
             else Inr v))"

text \<open>\<open>if (value instanceof Error) value.stack = ...\<close>\<close>

fun replace_stack :: "jsval \<Rightarrow> jsval" where
  "replace_stack (JObj c p ps) =
     (if p = ErrorProto
      then JObj c p (set_own ps ''stack'' (JStr (synthetic_stack (JObj c p ps))))
      else JObj c p ps)"
| "replace_stack v = v"

definition restoreThrownValue ::
  "jsval \<Rightarrow> RestorationInfo option \<Rightarrow> RestorerFunction option \<Rightarrow> js_error + jsval" where
  "restoreThrownValue v info restorer =
     (case delete_prop v ''_affinity_rethrow'' of
        Inl e \<Rightarrow> Inl e
      | Inr v1 \<Rightarrow>
     (case restoreValue v1 info restorer of
        Inl e \<Rightarrow> Inl e
      | Inr v2 \<Rightarrow>
          if instanceof_ThrownNonObject v2 then Inr (prop_value v2 ''thrownValue'')
          else
            (case rebuild_error v2 info of
               Inl e \<Rightarrow> Inl e
             | Inr v3 \<Rightarrow> Inr (replace_stack v3))))"

subsection \<open>Notions used in the statements about relayed errors\<close>







section \<open>Argument lists (restorer\_lib.ts)\<close>











subsection \<open>Notions used in the statements about argument lists\<close>












section \<open>Exposing an API (shared\_lib)\<close>

text \<open>
  For \<open>exposeApi\<close> an object is the name of its constructor and its prototype chain: the
  own properties of the instance, then those of each prototype in turn, as
  \<open>Object.getOwnPropertyNames\<close> lists them. The chain of an ordinary object ends with
  \<open>Object.prototype\<close>; after the last element comes \<open>null\<close>.
\<close>

type_synonym proto_level = "(string \<times> jsval) list"

record api_object =
  api_className :: string
  api_chain :: "proto_level list"

text \<open>
  \<open>getPropertyNames\<close>: the loop stops at the first object that owns a property named
  \<open>hasOwnProperty\<close>; \<open>Object.getOwnPropertyNames(null)\<close> raises a TypeError.
\<close>

fun getPropertyNames_loop :: "string list \<Rightarrow> proto_level list \<Rightarrow> js_error + string list" where
  "getPropertyNames_loop propertyNames [] = Inl TypeError"
| "getPropertyNames_loop propertyNames (obj # protos) =
     (if ''hasOwnProperty'' \<in> set (map fst obj) then Inr propertyNames
      else getPropertyNames_loop (propertyNames @ map fst obj) protos)"

definition getPropertyNames :: "proto_level list \<Rightarrow> js_error + string list" where
  "getPropertyNames chain = getPropertyNames_loop [] chain"

text \<open>\<open>api[methodName]\<close>: the first object of the chain that owns the property gives it.\<close>

fun chain_lookup :: "proto_level list \<Rightarrow> string \<Rightarrow> jsval" where
  "chain_lookup [] k = JUndefined"
| "chain_lookup (obj # protos) k =
     (case map_of obj k of Some v \<Rightarrow> v | None \<Rightarrow> chain_lookup protos k)"

definition toIpcName :: "string \<Rightarrow> string \<Rightarrow> string" where
  "toIpcName apiClassName methodName = apiClassName @ '':'' @ methodName"

text \<open>\<open>["_", "#"].includes(methodName[0])\<close>; the first character of the empty name is \<open>undefined\<close>.\<close>

definition is_private :: "string \<Rightarrow> bool" where
  "is_private methodName =
     (case methodName of [] \<Rightarrow> False | c # cs \<Rightarrow> c \<in> set [CHR ''_'', CHR ''#''])"

text \<open>
  The body of the loop of \<open>exposeApi\<close>. \<open>installHandler\<close> is the caller's function; its
  effect is a change of the caller's state \<open>'h\<close>.
\<close>

definition exposeApi_step ::
  "api_object \<Rightarrow> (string \<Rightarrow> jsval \<Rightarrow> 'h \<Rightarrow> 'h) \<Rightarrow> string list \<times> 'h \<Rightarrow> string \<Rightarrow> string list \<times> 'h" where
  "exposeApi_step api installHandler st methodName =
     (case st of (methodNames, h) \<Rightarrow>
        if methodName \<noteq> ''constructor'' \<and> \<not> is_private methodName then
          (let method = chain_lookup (api_chain api) methodName in
           if typeof method = ''function''
           then (methodNames @ [methodName],
                 installHandler (toIpcName (api_className api) methodName) method h)
           else (methodNames, h))
        else (methodNames, h))"

definition exposeApi ::
  "(string \<rightharpoonup> string list) \<Rightarrow> api_object \<Rightarrow> (string \<Rightarrow> jsval \<Rightarrow> 'h \<Rightarrow> 'h) \<Rightarrow> 'h
     \<Rightarrow> js_error + (string \<rightharpoonup> string list) \<times> 'h" where
  "exposeApi apiMap api installHandler h =
     (let apiClassName = api_className api in
      if apiMap apiClassName \<noteq> None then Inr (apiMap, h)
      else
        (case getPropertyNames (api_chain api) of
           Inl e \<Rightarrow> Inl e
         | Inr names \<Rightarrow>
             (case foldl (exposeApi_step api installHandler) ([], h) names of
                (methodNames, h') \<Rightarrow> Inr (apiMap(apiClassName \<mapsto> methodNames), h'))))"

subsection \<open>Notions used in the statements about exposure\<close>




text \<open>An \<open>installHandler\<close> that records its calls, and the two parts of a result.\<close>

definition log_handler :: "string \<Rightarrow> jsval \<Rightarrow> (string \<times> jsval) list \<Rightarrow> (string \<times> jsval) list" where
  "log_handler ipcName method calls = calls @ [(ipcName, method)]"

definition registered :: "js_error + (string \<rightharpoonup> string list) \<times> 'h \<Rightarrow> string \<Rightarrow> string list option" where
  "registered res apiName = (case res of Inr (apiMap, h) \<Rightarrow> apiMap apiName | Inl e \<Rightarrow> None)"

definition installed :: "js_error + (string \<rightharpoonup> string list) \<times> 'h \<Rightarrow> 'h option" where
  "installed res = (case res of Inr (apiMap, h) \<Rightarrow> Some h | Inl e \<Rightarrow> None)"

text \<open>
  \<open>Object.prototype\<close>, and three API objects: an instance of a class \<open>Greeter\<close> with a
  method, a private method and two fields; an instance of a subclass that adds a method;
  and an instance of a subclass that overrides the method.
\<close>

definition object_prototype :: proto_level where
  "object_prototype =
     [(''constructor'', JFunc 100), (''hasOwnProperty'', JFunc 101),
      (''isPrototypeOf'', JFunc 102), (''propertyIsEnumerable'', JFunc 103),
      (''toLocaleString'', JFunc 104), (''toString'', JFunc 105), (''valueOf'', JFunc 106)]"

definition loud_greeter :: api_object where
  "loud_greeter = \<lparr> api_className = ''LoudGreeter'',
                    api_chain = [[],
                                 [(''constructor'', JFunc 4), (''greet'', JFunc 5)],
                                 [(''constructor'', JFunc 1), (''greet'', JFunc 2)],
                                 object_prototype] \<rparr>"



section \<open>Binding a main API (shared\_lib and the window side)\<close>

text \<open>
  The module state of a window, and what the outside sees of it: the configured binding
  timeout, the listener flag, the registry cache filled by discovery responses, the cache
  of bound proxies, the proxy objects created so far (a proxy is known by its index, so
  that two proxies with the same methods are still two objects), the promises created so
  far, and the messages passed to \<open>window._affinity_ipc.send\<close>. Of a proxy the state
  keeps the class name, the method names it has a forwarding function for, and the
  restorer those functions have captured.
\<close>

record proxy =
  p_apiClassName :: string
  p_methodNames :: "string list"
  p_restorer :: "RestorerFunction option"

datatype promise_state = Pending | Resolved nat | Rejected string

record window_state =
  bindingTimeoutMillis :: int
  listeningForIPC :: bool
  mainApiMap :: "string \<rightharpoonup> string list"
  boundMainApis :: "string \<rightharpoonup> nat"
  proxies :: "proxy list"
  promises :: "promise_state list"
  sent :: "(string \<times> string) list"


definition API_RESPONSE_IPC :: string where
  "API_RESPONSE_IPC = ''_affinity_api_response''"

definition RETRY_MILLIS :: int where
  "RETRY_MILLIS = 50"



text \<open>
  A pending \<open>setTimeout\<close>: the values its callback has captured and its delay. All delays
  are equal, so the pending timers fire in the order in which they were set.
\<close>

type_synonym attemptFunc = "window_state \<Rightarrow> bool \<times> window_state"














text \<open>
  The module state in which check \<open>k\<close> of such a chain calls the attempt function, and
  the state it leaves, in which the timeout is read.
\<close>

primrec state_before_check ::
  "attemptFunc \<Rightarrow> (nat \<Rightarrow> window_state \<Rightarrow> window_state) \<Rightarrow> window_state \<Rightarrow> nat \<Rightarrow> window_state" where
  "state_before_check attemptFunc env s 0 = s"
| "state_before_check attemptFunc env s (Suc k) =
     env k (snd (attemptFunc (state_before_check attemptFunc env s k)))"

definition state_at_check ::
  "attemptFunc \<Rightarrow> (nat \<Rightarrow> window_state \<Rightarrow> window_state) \<Rightarrow> window_state \<Rightarrow> nat \<Rightarrow> window_state" where
  "state_at_check attemptFunc env s k = snd (attemptFunc (state_before_check attemptFunc env s k))"

subsection \<open>Notions used in the statements about binding\<close>



definition timeout_at ::
  "attemptFunc \<Rightarrow> (nat \<Rightarrow> window_state \<Rightarrow> window_state) \<Rightarrow> window_state \<Rightarrow> nat \<Rightarrow> int" where
  "timeout_at attemptFunc env s k = bindingTimeoutMillis (state_at_check attemptFunc env s k)"






section \<open>Properties of the value model\<close>

subsection \<open>Own properties as a map\<close>

lemma value_of_Nil [simp]: "value_of [] k = None"
  by (simp add: value_of_def)

lemma value_of_Cons [simp]:
  "value_of ((k', e, v) # ps) k = (if k = k' then Some v else value_of ps k)"
  by (simp add: value_of_def)
















subsection \<open>The wire value of a thrown object\<close>





section \<open>The relay tag\<close>

text \<open>
  A wire value that carries the marker with the value \<open>false\<close>: the marker is present,
  and \<open>wasThrownValue\<close> does not answer \<open>true\<close>.
\<close>

theorem wasThrownValue_presence_counterexample:
  "\<not> (wasThrownValue (JObj ''Object'' PlainProto [(''_affinity_rethrow'', True, JBool False)]) = JBool True
      \<longleftrightarrow> own_property (JObj ''Object'' PlainProto [(''_affinity_rethrow'', True, JBool False)])
            ''_affinity_rethrow'' \<noteq> None)"
  by (simp add: wasThrownValue_def)

text \<open>
  Claim C9, as the code has it: \<open>wasThrownValue(v)\<close> yields a truthy result exactly when
  \<open>v\<close> has an own \<open>_affinity_rethrow\<close> property whose value is truthy; the presence of
  the marker alone does not decide, and \<open>undefined\<close> and \<open>null\<close> are never thrown values.
\<close>

theorem wasThrownValue_truthy_iff:
  "truthy (wasThrownValue v)
     \<longleftrightarrow> (\<exists>x. own_property v ''_affinity_rethrow'' = Some x \<and> truthy x)"
proof (cases v)
  case (JObj c p ps)
  then show ?thesis
    by (cases "value_of ps ''_affinity_rethrow''") (simp_all add: wasThrownValue_def)
qed (simp_all add: wasThrownValue_def)

theorem wasThrownValue_truthy_iff_witness:
  "truthy (wasThrownValue (JObj ''Object'' PlainProto [(''_affinity_rethrow'', True, JBool True)]))
   \<and> \<not> truthy (wasThrownValue (JObj ''Object'' PlainProto [(''_affinity_rethrow'', True, JBool False)]))
   \<and> \<not> truthy (wasThrownValue (JNum 42))"
  using wasThrownValue_truthy_iff [of "JObj ''Object'' PlainProto [(''_affinity_rethrow'', True, JBool True)]"]
        wasThrownValue_truthy_iff [of "JObj ''Object'' PlainProto [(''_affinity_rethrow'', True, JBool False)]"]
        wasThrownValue_truthy_iff [of "JNum 42"]
  by simp



section \<open>Restoring values\<close>



section \<open>Thrown values that are not objects\<close>

text \<open>
  A thrown value whose \<open>typeof\<close> is not \<open>object\<close> is boxed and comes back as it was
  thrown, whatever the restorer.
\<close>

lemma rethrown_non_object_round_trip:
  assumes "typeof t \<noteq> ''object''"
  shows "fst (makeRethrownReturnValue t) = new_ThrownNonObject t
       \<and> restoreThrownValue (fst (makeRethrownReturnValue t)) (snd (makeRethrownReturnValue t)) restorer
           = Inr t"
  using assms
  by (simp add: makeRethrownReturnValue_def Let_def new_ThrownNonObject_def makeRestorationInfo_def
      restoreThrownValue_def restoreValue_def AList.delete_eq)

text \<open>
  Claim C2 at the thrown value \<open>null\<close>: \<open>typeof null\<close> is \<open>object\<close>, so \<open>null\<close> is not
  boxed; the wire pair is a bare tagged object with no restoration info, and
  \<open>restoreThrownValue\<close> raises a TypeError on reading \<open>info.isError\<close> instead of
  returning \<open>null\<close>.
\<close>

theorem rethrown_null_raises:
  "typeof JNull = ''object''
   \<and> makeRethrownReturnValue JNull
       = (JObj ''Object'' PlainProto [(''_affinity_rethrow'', True, JBool True)], None)
   \<and> restoreThrownValue (fst (makeRethrownReturnValue JNull)) (snd (makeRethrownReturnValue JNull))
        restorer = Inl TypeError"
  by (simp add: makeRethrownReturnValue_def Let_def makeRestorationInfo_def object_assign_def
      assign_from_def enum_view_def restoreThrownValue_def restoreValue_def rebuild_error_def
      AList.delete_eq)

section \<open>Relayed errors\<close>











section \<open>Marshalling and restoring argument lists\<close>

subsection \<open>Decimal numerals are injective\<close>












subsection \<open>The loop of makeArgsRestorable\<close>




subsection \<open>The loop of restoreArgs\<close>















section \<open>Exposure registers the public methods\<close>










text \<open>
  A subclass that overrides a method: the name is collected once for each prototype that
  owns it, and the handler of the overriding method is installed twice.
\<close>

lemma exposeApi_overridden_method:
  "registered (exposeApi Map.empty loud_greeter log_handler []) ''LoudGreeter''
     = Some [''greet'', ''greet'']
   \<and> installed (exposeApi Map.empty loud_greeter log_handler [])
       = Some [(''LoudGreeter:greet'', JFunc 5), (''LoudGreeter:greet'', JFunc 5)]"
  by (simp add: loud_greeter_def object_prototype_def registered_def installed_def exposeApi_def
      getPropertyNames_def exposeApi_step_def is_private_def log_handler_def toIpcName_def Let_def)

section \<open>The retry loop times out\<close>






lemma bounded_timeout_is_reached:
  assumes "\<forall>j. timeout_at attemptFunc env s j \<le> limit"
  shows "timeout_at attemptFunc env s (nat limit) \<le> RETRY_MILLIS * int (nat limit)"
proof -
  have "timeout_at attemptFunc env s (nat limit) \<le> limit" using assms by blast
  also have "limit \<le> RETRY_MILLIS * int (nat limit)" by (simp add: RETRY_MILLIS_def)
  finally show ?thesis .
qed








section \<open>Two binds in flight\<close>




section \<open>Binding a bound name\<close>




end
